theory Spec2Isabelle
  imports Main "HOL-Library.Sublist"
begin

section \<open>Python values\<close>

text \<open>
  A Python \<open>str\<close> is a sequence of Unicode code points, so it is a list of naturals
  here; \<open>py_str\<close> reads an ASCII literal. Attribute names and keyword names are
  identifiers that the code only ever compares, and stay \<open>string\<close>.
\<close>

type_synonym pystr = "nat list"

definition py_str :: "string \<Rightarrow> pystr" where
  "py_str s = map of_char s"

text \<open>Objects (\<open>Option\<close>, \<open>ArgumentGroup\<close>) live in a store and are held by reference.\<close>

type_synonym ref = nat

text \<open>
  The two action classes of the module: \<open>CallbackAction\<close>, and the class
  \<open>SplitList\<close> that \<open>split_lists(separator)\<close> returns, closed over its separator.
\<close>

datatype action_class = CallbackAction_class | SplitList_class pystr

text \<open>
  The values that reach the code. \<open>'h\<close> is the type of handler functions;
  \<open>PPartial f v s\<close> is \<open>functools.partial(f, values=v, option_string=s)\<close>.
\<close>

datatype 'h pyval =
    PNone
  | PBool bool
  | PInt int
  | PStr pystr
  | PList "'h pyval list"
  | PRef ref
  | PFunc 'h
  | PClass action_class
  | PPartial 'h "'h pyval" "'h pyval"

text \<open>
  The exceptions the code can raise. \<open>Dangling\<close> is no Python exception: it marks a
  reference outside the store, which no Python program can hold.
\<close>

datatype exn =
    AttributeError
  | ValueError
  | TypeError
  | RecursionError
  | SystemExit int
  | Raised pystr
  | Dangling

text \<open>Truth value testing, as \<open>or\<close> and \<open>not\<close> apply it.\<close>

fun truthy :: "'h pyval \<Rightarrow> bool" where
  "truthy PNone = False"
| "truthy (PBool b) = b"
| "truthy (PInt i) = (i \<noteq> 0)"
| "truthy (PStr s) = (s \<noteq> [])"
| "truthy (PList xs) = (xs \<noteq> [])"
| "truthy (PRef r) = True"
| "truthy (PFunc f) = True"
| "truthy (PClass c) = True"
| "truthy (PPartial f v s) = True"

fun is_str :: "'h pyval \<Rightarrow> bool" where
  "is_str (PStr s) = True"
| "is_str v = False"

section \<open>The string methods the module calls\<close>

text \<open>
  \<open>str.strip()\<close> without argument removes leading and trailing whitespace: the code
  points for which \<open>str.isspace\<close> holds.
\<close>

definition isspace :: "nat \<Rightarrow> bool" where
  "isspace c \<longleftrightarrow>
     (9 \<le> c \<and> c \<le> 13) \<or> (28 \<le> c \<and> c \<le> 32) \<or> c = 133 \<or> c = 160 \<or> c = 5760 \<or>
     (8192 \<le> c \<and> c \<le> 8202) \<or> c = 8232 \<or> c = 8233 \<or> c = 8239 \<or> c = 8287 \<or> c = 12288"

definition strip :: "pystr \<Rightarrow> pystr" where
  "strip s = rev (dropWhile isspace (rev (dropWhile isspace s)))"

text \<open>
  \<open>s.split(sep)\<close> for a non-empty \<open>sep\<close>: the pieces between the occurrences of
  \<open>sep\<close>, found from the left and not overlapping. There is always at least one piece.
\<close>

function pieces :: "pystr \<Rightarrow> pystr \<Rightarrow> pystr list" where
  "pieces sep [] = [[]]"
| "pieces sep (c # cs) =
     (if sep \<noteq> [] \<and> prefix sep (c # cs)
      then [] # pieces sep (drop (length sep) (c # cs))
      else (let ps = pieces sep cs in (c # hd ps) # tl ps))"
  by pat_completeness auto
termination
  by (relation "measure (\<lambda>(sep, s). length s)") (auto simp: neq_Nil_conv)

text \<open>An empty separator raises \<open>ValueError: empty separator\<close>.\<close>

definition split :: "pystr \<Rightarrow> pystr \<Rightarrow> exn + pystr list" where
  "split s sep = (if sep = [] then Inl ValueError else Inr (pieces sep s))"

section \<open>The parse result\<close>

text \<open>
  An \<open>argparse.Namespace\<close> is a bag of attributes: \<open>None\<close> at a name means the
  attribute does not exist (\<open>hasattr\<close> is false, \<open>getattr\<close> raises), \<open>Some PNone\<close>
  that it holds Python's \<open>None\<close>. Slots hold values: two slots never share one list.
\<close>

type_synonym 'h namespace = "string \<rightharpoonup> 'h pyval"

text \<open>Of \<open>argparse.Action\<close> the module's actions read one field, \<open>dest\<close>.\<close>

record Action =
  dest :: string

section \<open>split\_lists\<close>

text \<open>
  \<^verbatim>\<open>
  def split_lists(separator):
      class SplitList(argparse.Action):
          def __call__(self, parser, args, values, option_string=None):
              if not isinstance(values, str):
                  return
              split = getattr(args, self.dest) or []
              split.extend(value.strip() for value in values.split(separator) if value.strip())
              setattr(args, self.dest, split)
      return SplitList
  \<close>
  The steps fail in the order Python evaluates them: \<open>getattr\<close> on a missing
  attribute, then the lookup of \<open>extend\<close> on a value that is no list, then
  \<open>values.split\<close>. Nothing has been written when one of them raises.
\<close>

text \<open>The generator expression, shared with \<open>from_splitted_env\<close> below.\<close>

definition stripped_segments :: "pystr list \<Rightarrow> pystr list" where
  "stripped_segments ps = map strip (filter (\<lambda>value. strip value \<noteq> []) ps)"

definition SplitList_call ::
  "pystr \<Rightarrow> Action \<Rightarrow> 'h namespace \<Rightarrow> 'h pyval \<Rightarrow> exn + 'h namespace" where
  "SplitList_call separator self args values =
     (case values of
        PStr s \<Rightarrow>
          (case args (dest self) of
             None \<Rightarrow> Inl AttributeError
           | Some prior \<Rightarrow>
               (case (if truthy prior then prior else PList []) of
                  PList xs \<Rightarrow>
                    (case split s separator of
                       Inl e \<Rightarrow> Inl e
                     | Inr ps \<Rightarrow>
                         Inr (args(dest self \<mapsto> PList (xs @ map PStr (stripped_segments ps)))))
                | _ \<Rightarrow> Inl AttributeError))
      | _ \<Rightarrow> Inr args)"

section \<open>from\_splitted\_env\<close>

text \<open>
  \<^verbatim>\<open>
  def from_splitted_env(name, separator):
      value = os.getenv(name)
      if not value:
          return None
      return [v.strip() for v in value.split(separator) if v.strip()] or None
  \<close>
  The environment is a map from names to values; the result is \<open>None\<close> or a list.
\<close>

type_synonym environ = "pystr \<rightharpoonup> pystr"

definition from_splitted_env :: "environ \<Rightarrow> pystr \<Rightarrow> pystr \<Rightarrow> exn + pystr list option" where
  "from_splitted_env env name separator =
     (case env name of
        None \<Rightarrow> Inr None
      | Some value \<Rightarrow>
          if value = [] then Inr None
          else (case split value separator of
                  Inl e \<Rightarrow> Inl e
                | Inr ps \<Rightarrow>
                    (let r = stripped_segments ps in if r = [] then Inr None else Inr (Some r))))"

section \<open>CallbackAction\<close>

text \<open>
  \<^verbatim>\<open>
  class CallbackAction(argparse.Action):
      def __init__(self, *args, callback, **kwargs):
          super().__init__(*args, **kwargs)
          self.callback = callback

      def __call__(self, parser, namespace, values, option_string=None):
          if not hasattr(namespace, "callbacks"):
              namespace.callbacks = []
          callback = partial(self.callback, values=values, option_string=option_string)
          namespace.callbacks.append(callback)
  \<close>
  \<open>append\<close> exists on a list only: an attribute \<open>callbacks\<close> that holds anything
  else raises \<open>AttributeError\<close>.
\<close>

record 'h CallbackAction = Action +
  callback :: 'h

definition CallbackAction_call ::
  "'h CallbackAction \<Rightarrow> 'h namespace \<Rightarrow> 'h pyval \<Rightarrow> 'h pyval \<Rightarrow> exn + 'h namespace" where
  "CallbackAction_call self namespace values option_string =
     (let namespace1 =
        (if namespace ''callbacks'' = None then namespace(''callbacks'' \<mapsto> PList [])
         else namespace)
      in case namespace1 ''callbacks'' of
           Some (PList cs) \<Rightarrow>
             Inr (namespace1(''callbacks'' \<mapsto>
                    PList (cs @ [PPartial (callback self) values option_string])))
         | _ \<Rightarrow> Inl AttributeError)"

text \<open>
  The grammar engine calls the action of each matched flag as it walks argv. A match of a
  callback-bound flag is the action, the parsed value and the alias as it was written;
  \<open>fire_all\<close> is the engine's walk over such matches, stopping at the first exception.
\<close>

type_synonym 'h match = "'h CallbackAction \<times> 'h pyval \<times> 'h pyval"

fun fire_all :: "'h match list \<Rightarrow> 'h namespace \<Rightarrow> exn + 'h namespace" where
  "fire_all [] namespace = Inr namespace"
| "fire_all ((a, values, option_string) # ms) namespace =
     (case CallbackAction_call a namespace values option_string of
        Inl e \<Rightarrow> Inl e
      | Inr namespace1 \<Rightarrow> fire_all ms namespace1)"

definition deferred :: "'h match \<Rightarrow> 'h pyval" where
  "deferred m = (case m of (a, values, option_string) \<Rightarrow> PPartial (callback a) values option_string)"

section \<open>Option and ArgumentGroup\<close>

text \<open>
  \<^verbatim>\<open>
  class Option:
      def __init__(self, *args, **kwargs):
          self.args = args
          self.kwargs = kwargs
  class ArgumentGroup(Option):
      def __init__(self, name, is_mutually_exclusive=False, required=False):
          self.name = name
          self.options = []
          self.required = required
          self.is_mutually_exclusive = is_mutually_exclusive
  \<close>
  \<open>ArgumentGroup.__init__\<close> does not call \<open>Option.__init__\<close>: a group has no
  \<open>args\<close> and no \<open>kwargs\<close>. The children of a group are references.
\<close>

record 'h Option =
  args :: "'h pyval list"
  kwargs :: "string \<rightharpoonup> 'h pyval"

record ArgumentGroup =
  name :: pystr
  options :: "ref list"
  required :: bool
  is_mutually_exclusive :: bool

datatype 'h obj = OptionObj "'h Option" | GroupObj ArgumentGroup

text \<open>The store: the object at reference \<open>r\<close> is the \<open>r\<close>-th one created.\<close>

type_synonym 'h store = "'h obj list"

definition deref :: "'h store \<Rightarrow> ref \<Rightarrow> 'h obj option" where
  "deref h r = (if r < length h then Some (h ! r) else None)"

definition Option_init ::
  "'h store \<Rightarrow> 'h pyval list \<Rightarrow> (string \<rightharpoonup> 'h pyval) \<Rightarrow> 'h store \<times> ref" where
  "Option_init h as kw = (h @ [OptionObj \<lparr>args = as, kwargs = kw\<rparr>], length h)"

definition ArgumentGroup_init :: "'h store \<Rightarrow> pystr \<Rightarrow> bool \<Rightarrow> bool \<Rightarrow> 'h store \<times> ref" where
  "ArgumentGroup_init h nm mutex req =
     (h @ [GroupObj \<lparr>name = nm, options = [], required = req, is_mutually_exclusive = mutex\<rparr>],
      length h)"

text \<open>
  \<^verbatim>\<open>
      def __call__(self, func):
          self.kwargs.update(action=CallbackAction, callback=func)
          return self
  \<close>
  The result is the new store and the reference returned. On a group, which inherits the
  method, \<open>self.kwargs\<close> raises \<open>AttributeError\<close>.
\<close>

definition Option_call :: "'h store \<Rightarrow> ref \<Rightarrow> 'h \<Rightarrow> exn + 'h store \<times> ref" where
  "Option_call h self func =
     (case deref h self of
        None \<Rightarrow> Inl Dangling
      | Some (GroupObj g) \<Rightarrow> Inl AttributeError
      | Some (OptionObj opt) \<Rightarrow>
          Inr (h[self := OptionObj (opt\<lparr>kwargs :=
                 (kwargs opt)(''action'' \<mapsto> PClass CallbackAction_class,
                              ''callback'' \<mapsto> PFunc func)\<rparr>)],
               self))"

text \<open>
  \<^verbatim>\<open>
      def add_argument(self, *args, **kwargs):
          if args and isinstance(args[0], Option):
              self.options.append(args[0])
          else:
              self.options.append(Option(*args, **kwargs))
  \<close>
  Every object of the store is an \<open>Option\<close> or an \<open>ArgumentGroup\<close>, which is a
  subclass, so \<open>isinstance(args[0], Option)\<close> holds exactly of a reference. The method
  exists on groups only.
\<close>

definition append_option :: "'h store \<Rightarrow> ref \<Rightarrow> ArgumentGroup \<Rightarrow> ref \<Rightarrow> 'h store" where
  "append_option h self g r = h[self := GroupObj (g\<lparr>options := options g @ [r]\<rparr>)]"

definition add_argument ::
  "'h store \<Rightarrow> ref \<Rightarrow> 'h pyval list \<Rightarrow> (string \<rightharpoonup> 'h pyval) \<Rightarrow> exn + 'h store" where
  "add_argument h self as kw =
     (case deref h self of
        None \<Rightarrow> Inl Dangling
      | Some (OptionObj opt) \<Rightarrow> Inl AttributeError
      | Some (GroupObj g) \<Rightarrow>
          (case as of
             PRef r # rest \<Rightarrow>
               (if r < length h then Inr (append_option h self g r) else Inl Dangling)
           | _ \<Rightarrow>
               (case Option_init h as kw of (h1, r) \<Rightarrow> Inr (append_option h1 self g r))))"

section \<open>Registration\<close>

text \<open>
  The grammar engine is not part of the module. Of a container (a parser or a group of
  one) the model keeps what the module registers into it, in order: an
  \<open>add_argument(*args, **kwargs)\<close> call, or a scope opened by
  \<open>add_mutually_exclusive_group(required=...)\<close> or \<open>add_argument_group(name)\<close> with
  what was registered into the scope.
\<close>

datatype 'h entry =
    Argument "'h pyval list" "string \<rightharpoonup> 'h pyval"
  | MutuallyExclusiveGroup bool "'h entry list"
  | ArgumentGroupScope pystr "'h entry list"

type_synonym 'h container = "'h entry list"

text \<open>
  \<^verbatim>\<open>
  class Option:
      def add_to_parser(self, parser):
          parser.add_argument(*self.args, **self.kwargs)
      def add_to_group(self, group):
          group.add_argument(*self.args, **self.kwargs)
  class ArgumentGroup(Option):
      def add_to_parser(self, parser):
          if self.is_mutually_exclusive:
              group = parser.add_mutually_exclusive_group(required=self.required)
          else:
              group = parser.add_argument_group(self.name)
          for option in self.options:
              option.add_to_group(group)
      def add_to_group(self, group):
          self.add_to_parser(group)
  \<close>
  The call dispatches on the class of \<open>self\<close>. A group may hold itself, so the
  recursion need not end: the first argument is how many nested groups the interpreter's
  stack still holds, and running out of it is Python's \<open>RecursionError\<close>.
  \<open>register\<close> is the \<open>for\<close> loop; \<open>grp\<close> stands for the source's \<open>group\<close>.
\<close>

fun add_to_parser :: "nat \<Rightarrow> 'h store \<Rightarrow> ref \<Rightarrow> 'h container \<Rightarrow> exn + 'h container"
  and add_to_group :: "nat \<Rightarrow> 'h store \<Rightarrow> ref \<Rightarrow> 'h container \<Rightarrow> exn + 'h container"
  and register :: "nat \<Rightarrow> 'h store \<Rightarrow> ref list \<Rightarrow> 'h container \<Rightarrow> exn + 'h container"
where
  "add_to_parser depth h self parser =
     (case deref h self of
        None \<Rightarrow> Inl Dangling
      | Some (OptionObj opt) \<Rightarrow> Inr (parser @ [Argument (args opt) (kwargs opt)])
      | Some (GroupObj g) \<Rightarrow>
          (case depth of
             0 \<Rightarrow> Inl RecursionError
           | Suc d \<Rightarrow>
               (case register d h (options g) [] of
                  Inl e \<Rightarrow> Inl e
                | Inr grp \<Rightarrow>
                    Inr (parser @
                      [if is_mutually_exclusive g then MutuallyExclusiveGroup (required g) grp
                       else ArgumentGroupScope (name g) grp]))))"
| "add_to_group depth h self grp =
     (case deref h self of
        None \<Rightarrow> Inl Dangling
      | Some (OptionObj opt) \<Rightarrow> Inr (grp @ [Argument (args opt) (kwargs opt)])
      | Some (GroupObj g) \<Rightarrow> add_to_parser depth h self grp)"
| "register depth h [] grp = Inr grp"
| "register depth h (option # rest) grp =
     (case add_to_group depth h option grp of
        Inl e \<Rightarrow> Inl e
      | Inr grp1 \<Rightarrow> register depth h rest grp1)"

section \<open>The operations on the store\<close>

text \<open>
  What the module does to Options and groups, one constructor per operation:
  \<open>Option(*args, **kwargs)\<close>, \<open>ArgumentGroup(name, is_mutually_exclusive, required)\<close>,
  the decorator form \<open>option(func)\<close>, \<open>group.add_argument(*args, **kwargs)\<close>, the
  direct \<open>group.options.append(option)\<close> of the catalog, and the two registrations.
\<close>

datatype 'h operation =
    New_Option "'h pyval list" "string \<rightharpoonup> 'h pyval"
  | New_Group pystr bool bool
  | Decorate ref 'h
  | Add_argument ref "'h pyval list" "string \<rightharpoonup> 'h pyval"
  | Append_child ref ref
  | Add_to_parser nat ref "'h container"
  | Add_to_group nat ref "'h container"

text \<open>
  The store after one operation. A registration writes into the container it is given
  and leaves every object as it was; \<open>options\<close> exists on a group only.
\<close>

fun apply_operation :: "'h store \<Rightarrow> 'h operation \<Rightarrow> exn + 'h store" where
  "apply_operation h (New_Option as kw) = Inr (fst (Option_init h as kw))"
| "apply_operation h (New_Group nm mutex req) = Inr (fst (ArgumentGroup_init h nm mutex req))"
| "apply_operation h (Decorate self func) =
     (case Option_call h self func of Inl e \<Rightarrow> Inl e | Inr (h1, r) \<Rightarrow> Inr h1)"
| "apply_operation h (Add_argument self as kw) = add_argument h self as kw"
| "apply_operation h (Append_child self r) =
     (case deref h self of
        None \<Rightarrow> Inl Dangling
      | Some (OptionObj opt) \<Rightarrow> Inl AttributeError
      | Some (GroupObj g) \<Rightarrow>
          (if r < length h then Inr (append_option h self g r) else Inl Dangling))"
| "apply_operation h (Add_to_parser depth self parser) =
     (case add_to_parser depth h self parser of Inl e \<Rightarrow> Inl e | Inr parser1 \<Rightarrow> Inr h)"
| "apply_operation h (Add_to_group depth self grp) =
     (case add_to_group depth h self grp of Inl e \<Rightarrow> Inl e | Inr grp1 \<Rightarrow> Inr h)"

fun run_operations :: "'h store \<Rightarrow> 'h operation list \<Rightarrow> exn + 'h store" where
  "run_operations h [] = Inr h"
| "run_operations h (op # ops) =
     (case apply_operation h op of Inl e \<Rightarrow> Inl e | Inr h1 \<Rightarrow> run_operations h1 ops)"

text \<open>\<open>decorates r op\<close>: the operation is the decorator form applied to the object at \<open>r\<close>.\<close>

fun decorates :: "ref \<Rightarrow> 'h operation \<Rightarrow> bool" where
  "decorates r (Decorate self func) = (self = r)"
| "decorates r other = False"

section \<open>The handlers of the catalog\<close>

text \<open>
  A handler runs after parsing, on the project and the process state it may change:
  \<open>project.enable_write_lockfile\<close>, the warnings sent to \<open>project.core.ui.warn\<close>,
  \<open>os.environ\<close>, and what has been printed. It returns normally with the new state
  (\<open>Inr\<close>) or raises in the state it has reached (\<open>Inl\<close>).
\<close>

record world =
  enable_write_lockfile :: bool
  warnings :: "pystr list"
  os_environ :: environ
  printed :: "pystr list"

type_synonym outcome = "exn \<times> world + world"

type_synonym 'h callable = "world \<Rightarrow> 'h namespace \<Rightarrow> 'h pyval \<Rightarrow> 'h pyval \<Rightarrow> outcome"

text \<open>
  \<^verbatim>\<open>
  def frozen_lockfile_option(project, namespace, values, option_string=None):
      if option_string == "--no-lock":
          project.core.ui.warn("--no-lock is deprecated, use --frozen-lockfile instead.")
      project.enable_write_lockfile = False
  \<close>
\<close>

definition frozen_lockfile_option :: "'h callable" where
  "frozen_lockfile_option project namespace values option_string =
     (let project1 =
        (if option_string = PStr (py_str ''--no-lock'')
         then project\<lparr>warnings := warnings project @
                [py_str ''--no-lock is deprecated, use --frozen-lockfile instead.'']\<rparr>
         else project)
      in Inr (project1\<lparr>enable_write_lockfile := False\<rparr>))"

text \<open>
  \<^verbatim>\<open>
  def pep582_option(project, namespace, values, option_string=None):
      from pdm.cli.actions import print_pep582_command
      print_pep582_command(project, cast(str, values))
      sys.exit(0)
  \<close>
  \<open>print_pep582_command\<close> belongs to another module and is a parameter: it may print
  and return, or raise. \<open>sys.exit(0)\<close> raises \<open>SystemExit(0)\<close>.
\<close>

definition pep582_option :: "(world \<Rightarrow> 'h pyval \<Rightarrow> outcome) \<Rightarrow> 'h callable" where
  "pep582_option print_pep582_command project namespace values option_string =
     (case print_pep582_command project values of
        Inl e \<Rightarrow> Inl e
      | Inr project1 \<Rightarrow> Inl (SystemExit 0, project1))"

text \<open>
  \<^verbatim>\<open>
  def no_isolation_option(project, namespace, values, option_string=None):
      os.environ["PDM_BUILD_ISOLATION"] = "no"
  def ignore_python_option(project, namespace, values, option_string=None):
      os.environ.update({"PDM_IGNORE_SAVED_PYTHON": "1"})
  \<close>
\<close>

definition no_isolation_option :: "'h callable" where
  "no_isolation_option project namespace values option_string =
     Inr (project\<lparr>os_environ :=
            (os_environ project)(py_str ''PDM_BUILD_ISOLATION'' \<mapsto> py_str ''no'')\<rparr>)"

definition ignore_python_option :: "'h callable" where
  "ignore_python_option project namespace values option_string =
     Inr (project\<lparr>os_environ :=
            (os_environ project)(py_str ''PDM_IGNORE_SAVED_PYTHON'' \<mapsto> py_str ''1'')\<rparr>)"

text \<open>The four functions as values, and what calling each one does.\<close>

datatype handler = frozen_lockfile | pep582 | no_isolation | ignore_python

fun call_handler :: "(world \<Rightarrow> handler pyval \<Rightarrow> outcome) \<Rightarrow> handler \<Rightarrow> handler callable" where
  "call_handler print_pep582_command frozen_lockfile = frozen_lockfile_option"
| "call_handler print_pep582_command pep582 = pep582_option print_pep582_command"
| "call_handler print_pep582_command no_isolation = no_isolation_option"
| "call_handler print_pep582_command ignore_python = ignore_python_option"

section \<open>The command driver\<close>

text \<open>
  Modelled from the spec: the command driver, which is not in the module. After parsing
  it iterates the deferred-invocation list in order and invokes each handler with the
  execution context; a termination raised inside a handler is immediate and final, so
  the iteration stops there. \<open>call\<close> says what calling a handler function does; a
  record \<open>partial(f, values=v, option_string=s)\<close> is called as
  \<open>f(project, namespace, values=v, option_string=s)\<close>, and an entry that is no such
  record is not callable.
\<close>

fun run_callbacks ::
  "('h \<Rightarrow> 'h callable) \<Rightarrow> world \<Rightarrow> 'h namespace \<Rightarrow> 'h pyval list \<Rightarrow> outcome" where
  "run_callbacks call project namespace [] = Inr project"
| "run_callbacks call project namespace (PPartial f v s # rest) =
     (case call f project namespace v s of
        Inl e \<Rightarrow> Inl e
      | Inr project1 \<Rightarrow> run_callbacks call project1 namespace rest)"
| "run_callbacks call project namespace (other # rest) = Inl (TypeError, project)"

section \<open>Vocabulary of the specification\<close>

text \<open>
  \<open>sep.join(ps)\<close>, against which \<open>pieces\<close> is checked: joining the pieces of a
  string gives the string back.
\<close>

fun join :: "pystr \<Rightarrow> pystr list \<Rightarrow> pystr" where
  "join sep [] = []"
| "join sep [p] = p"
| "join sep (p # q # ps) = p @ sep @ join sep (q # ps)"

text \<open>
  The specification's words for the segments of a value: split on the separator, strip
  each piece, discard the pieces that are empty after stripping.
\<close>

definition trimmed_nonempty_segments :: "pystr \<Rightarrow> pystr \<Rightarrow> pystr list" where
  "trimmed_nonempty_segments s separator =
     filter (\<lambda>p. p \<noteq> []) (map strip (pieces separator s))"

text \<open>The sequence a slot holds, empty when the slot holds no list.\<close>

definition prior_sequence :: "'h pyval option \<Rightarrow> 'h pyval list" where
  "prior_sequence slot = (case slot of Some (PList xs) \<Rightarrow> xs | _ \<Rightarrow> [])"

text \<open>The deferred-invocation list of a parse result, empty before the first firing.\<close>

definition callbacks_of :: "'h namespace \<Rightarrow> 'h pyval list" where
  "callbacks_of namespace = prior_sequence (namespace ''callbacks'')"

text \<open>
  A fresh parse result has no attribute \<open>callbacks\<close>, and every later state of it holds
  a list there.
\<close>

definition callbacks_slot_ok :: "'h namespace \<Rightarrow> bool" where
  "callbacks_slot_ok namespace =
     (case namespace ''callbacks'' of None \<Rightarrow> True | Some (PList cs) \<Rightarrow> True | _ \<Rightarrow> False)"

text \<open>The registration parameters of the Option at a reference.\<close>

definition parameter :: "'h store \<Rightarrow> ref \<Rightarrow> string \<Rightarrow> 'h pyval option" where
  "parameter h r k = (case deref h r of Some (OptionObj opt) \<Rightarrow> kwargs opt k | _ \<Rightarrow> None)"

definition aliases :: "'h store \<Rightarrow> ref \<Rightarrow> 'h pyval list" where
  "aliases h r = (case deref h r of Some (OptionObj opt) \<Rightarrow> args opt | _ \<Rightarrow> [])"

text \<open>
  \<open>nested_within d h r\<close>: the object at \<open>r\<close> exists and holds groups inside groups at
  most \<open>d\<close> deep (an Option is depth \<open>0\<close>, a group one more than its children).
\<close>

fun nested_within :: "nat \<Rightarrow> 'h store \<Rightarrow> ref \<Rightarrow> bool" where
  "nested_within d h r =
     (case deref h r of
        None \<Rightarrow> False
      | Some (OptionObj opt) \<Rightarrow> True
      | Some (GroupObj g) \<Rightarrow>
          (case d of 0 \<Rightarrow> False | Suc d1 \<Rightarrow> list_all (nested_within d1 h) (options g)))"

text \<open>
  The defining equations of the registration functions and of \<open>nested_within\<close> are
  unfolded by name where a proof needs them.
\<close>

declare add_to_parser.simps [simp del] add_to_group.simps [simp del]
  nested_within.simps [simp del]

section \<open>Instances for the examples\<close>

text \<open>
  A store shaped like a part of the catalog: the group \<open>Dependencies Selection\<close> with
  \<open>--no-default\<close> and, nested in it, the mutually exclusive group \<open>dev\<close> with
  \<open>-d/--dev\<close> and \<open>--prod/--production\<close> (help texts left out).
\<close>

definition example_store :: "handler store" where
  "example_store =
     [GroupObj \<lparr>name = py_str ''Dependencies Selection'', options = [1, 2], required = False,
                is_mutually_exclusive = False\<rparr>,
      OptionObj \<lparr>args = [PStr (py_str ''--no-default'')],
                 kwargs = [''dest'' \<mapsto> PStr (py_str ''default''),
                           ''action'' \<mapsto> PStr (py_str ''store_false''),
                           ''default'' \<mapsto> PBool True]\<rparr>,
      GroupObj \<lparr>name = py_str ''dev'', options = [3, 4], required = False,
                is_mutually_exclusive = True\<rparr>,
      OptionObj \<lparr>args = [PStr (py_str ''-d''), PStr (py_str ''--dev'')],
                 kwargs = [''default'' \<mapsto> PNone, ''dest'' \<mapsto> PStr (py_str ''dev''),
                           ''action'' \<mapsto> PStr (py_str ''store_true'')]\<rparr>,
      OptionObj \<lparr>args = [PStr (py_str ''--prod''), PStr (py_str ''--production'')],
                 kwargs = [''dest'' \<mapsto> PStr (py_str ''dev''),
                           ''action'' \<mapsto> PStr (py_str ''store_false'')]\<rparr>]"

text \<open>
  An instance of \<open>print_pep582_command\<close> that prints one line and returns, and a
  state to start from.
\<close>

definition example_print :: "world \<Rightarrow> handler pyval \<Rightarrow> outcome" where
  "example_print project shell =
     Inr (project\<lparr>printed := printed project @ [py_str ''eval command'']\<rparr>)"

definition example_world :: world where
  "example_world =
     \<lparr>enable_write_lockfile = True, warnings = [], os_environ = Map.empty, printed = []\<rparr>"

text \<open>
  A store with the Option \<open>-I/--ignore-python\<close> and an empty group, and a run of
  operations none of which decorates that Option: another Option is created and
  decorated, a group is created, the Option is added to a group, children are appended
  and added, and both groups are registered.
\<close>

definition example_options :: "handler store" where
  "example_options =
     [OptionObj \<lparr>args = [PStr (py_str ''-I''), PStr (py_str ''--ignore-python'')],
                 kwargs = [''nargs'' \<mapsto> PInt 0]\<rparr>,
      GroupObj \<lparr>name = py_str ''Install options'', options = [], required = False,
                is_mutually_exclusive = False\<rparr>]"

definition example_operations :: "handler operation list" where
  "example_operations =
     [New_Option [PStr (py_str ''--no-isolation'')] [''nargs'' \<mapsto> PInt 0],
      Decorate 2 no_isolation,
      New_Group (py_str ''dev'') True False,
      Add_argument 1 [PRef 0] Map.empty,
      Append_child 1 2,
      Add_argument 3 [PStr (py_str ''--prod'')] [''action'' \<mapsto> PStr (py_str ''store_false'')],
      Add_to_parser (Suc 0) 1 [],
      Add_to_group (Suc 0) 3 []]"

section \<open>Splitting and stripping\<close>

text \<open>
  What the model of \<open>str.split\<close> and \<open>str.strip\<close> yields: at least one piece, pieces
  that join back to the string, and stripped strings with no whitespace at either end.
\<close>

lemma pieces_not_Nil: "pieces sep s \<noteq> []"
  by (induction sep s rule: pieces.induct) (auto simp: Let_def)

lemma join_Cons_hd: "ps \<noteq> [] \<Longrightarrow> join sep ((c # hd ps) # tl ps) = c # join sep ps"
  by (cases ps; cases "tl ps") auto

lemma join_Nil_Cons: "ps \<noteq> [] \<Longrightarrow> join sep ([] # ps) = sep @ join sep ps"
  by (cases ps) auto

lemma join_pieces: "sep \<noteq> [] \<Longrightarrow> join sep (pieces sep s) = s"
proof (induction sep s rule: pieces.induct)
  case (1 sep)
  show ?case by simp
next
  case (2 sep c cs)
  show ?case
  proof (cases "prefix sep (c # cs)")
    case True
    then have "sep @ drop (length sep) (c # cs) = c # cs"
      by (metis append_eq_conv_conj prefix_def)
    with 2 True show ?thesis
      by (simp add: join_Nil_Cons pieces_not_Nil)
  next
    case False
    with 2 show ?thesis
      by (simp add: Let_def join_Cons_hd pieces_not_Nil)
  qed
qed

lemma strip_prefix: "\<exists>zs. dropWhile isspace s = strip s @ zs"
proof -
  let ?t = "dropWhile isspace s"
  have "strip s @ rev (takeWhile isspace (rev ?t)) =
        rev (takeWhile isspace (rev ?t) @ dropWhile isspace (rev ?t))"
    by (simp only: strip_def rev_append)
  also have "\<dots> = ?t"
    by (simp only: takeWhile_dropWhile_id rev_rev_ident)
  finally have "?t = strip s @ rev (takeWhile isspace (rev ?t))" by (rule sym)
  then show ?thesis ..
qed

lemma strip_edges:
  assumes "strip s \<noteq> []"
  shows "\<not> isspace (hd (strip s)) \<and> \<not> isspace (last (strip s))"
proof
  obtain zs where z: "dropWhile isspace s = strip s @ zs" using strip_prefix by blast
  with assms have "hd (strip s) = hd (dropWhile isspace s)" and "dropWhile isspace s \<noteq> []"
    by auto
  then show "\<not> isspace (hd (strip s))" by (simp add: hd_dropWhile)
next
  from assms have "dropWhile isspace (rev (dropWhile isspace s)) \<noteq> []"
    by (simp add: strip_def)
  then have "\<not> isspace (hd (dropWhile isspace (rev (dropWhile isspace s))))"
    by (rule hd_dropWhile)
  with assms show "\<not> isspace (last (strip s))"
    by (simp add: strip_def last_rev)
qed

lemma strip_strip: "strip (strip s) = strip s"
proof (cases "strip s = []")
  case True
  have "strip [] = []" by (simp add: strip_def)
  with True show ?thesis by simp
next
  case False
  then have e: "\<not> isspace (hd (strip s))" "\<not> isspace (last (strip s))"
    using strip_edges by blast+
  from False e(1) have "dropWhile isspace (strip s) = strip s"
    by (cases "strip s") auto
  moreover from False e(2) have "dropWhile isspace (rev (strip s)) = rev (strip s)"
    by (cases "rev (strip s)") (auto simp: hd_rev[symmetric] simp del: hd_rev)
  ultimately show ?thesis by (simp add: strip_def[of "strip s"])
qed


lemma stripped_segments_eq:
  "stripped_segments (pieces separator s) = trimmed_nonempty_segments s separator"
  by (simp add: stripped_segments_def trimmed_nonempty_segments_def filter_map comp_def)

lemma trimmed_nonempty_segments_edges:
  assumes "p \<in> set (trimmed_nonempty_segments s separator)"
  shows "p \<noteq> [] \<and> \<not> isspace (hd p) \<and> \<not> isspace (last p)"
proof -
  from assms obtain q where "p = strip q" and "p \<noteq> []"
    by (auto simp: trimmed_nonempty_segments_def)
  then show ?thesis using strip_edges [of q] by simp
qed

section \<open>The split-accumulate action\<close>

lemma SplitList_call_text:
  assumes "separator \<noteq> []"
    and "ns (dest a) = Some prior"
    and "\<not> truthy prior \<or> (\<exists>xs. prior = PList xs)"
  shows "SplitList_call separator a ns (PStr s) =
           Inr (ns(dest a \<mapsto> PList (prior_sequence (ns (dest a)) @
                  map PStr (trimmed_nonempty_segments s separator))))"
  using assms
  by (cases prior)
     (auto simp: SplitList_call_def split_def prior_sequence_def stripped_segments_eq)

text \<open>
  C2, amended. For every string value, every non-empty separator and a destination that
  holds a list or is unset (\<open>None\<close>, or any other value that tests false), one
  invocation of the split-accumulate action sets the destination to the prior sequence
  (the empty one when the destination is unset) followed by the in-order,
  whitespace-trimmed, non-empty segments of the value; prior contents are kept, so a
  second invocation concatenates.
\<close>

theorem SplitList_appends:
  assumes "separator \<noteq> []"
    and "ns (dest a) = Some prior"
    and "\<not> truthy prior \<or> (\<exists>xs. prior = PList xs)"
  shows "SplitList_call separator a ns (PStr s) =
           Inr (ns(dest a \<mapsto> PList (prior_sequence (ns (dest a)) @
                  map PStr (trimmed_nonempty_segments s separator))))
       \<and> (\<exists>ns1. SplitList_call separator a ns (PStr s) = Inr ns1 \<and>
            SplitList_call separator a ns1 (PStr t) =
              Inr (ns(dest a \<mapsto> PList (prior_sequence (ns (dest a)) @
                     map PStr (trimmed_nonempty_segments s separator) @
                     map PStr (trimmed_nonempty_segments t separator)))))"
proof -
  let ?xs = "prior_sequence (ns (dest a)) @ map PStr (trimmed_nonempty_segments s separator)"
  let ?ns1 = "ns(dest a \<mapsto> PList ?xs)"
  have first: "SplitList_call separator a ns (PStr s) = Inr ?ns1"
    using assms by (rule SplitList_call_text)
  have "?ns1 (dest a) = Some (PList ?xs)" and "\<not> truthy (PList ?xs) \<or> (\<exists>ys. PList ?xs = PList ys)"
    by simp_all
  with assms(1) have "SplitList_call separator a ?ns1 (PStr t) =
      Inr (?ns1(dest a \<mapsto> PList (prior_sequence (?ns1 (dest a)) @
                  map PStr (trimmed_nonempty_segments t separator))))"
    by (rule SplitList_call_text)
  then have "SplitList_call separator a ?ns1 (PStr t) =
      Inr (ns(dest a \<mapsto> PList (prior_sequence (ns (dest a)) @
                     map PStr (trimmed_nonempty_segments s separator) @
                     map PStr (trimmed_nonempty_segments t separator))))"
    by (simp add: prior_sequence_def)
  with first show ?thesis by simp
qed

text \<open>
  The instance of the specification: \<open>"a, b ,,c"\<close> split on \<open>","\<close> into an unset
  destination yields \<open>["a", "b", "c"]\<close>, and a second value \<open>" d ,"\<close> appends \<open>"d"\<close>.
\<close>

theorem SplitList_appends_witness:
  "SplitList_call (py_str '','') \<lparr>dest = ''groups''\<rparr> [''groups'' \<mapsto> (PNone :: unit pyval)]
       (PStr (py_str ''a, b ,,c'')) =
     Inr [''groups'' \<mapsto> PList [PStr (py_str ''a''), PStr (py_str ''b''), PStr (py_str ''c'')]]
   \<and> (\<exists>ns1. SplitList_call (py_str '','') \<lparr>dest = ''groups''\<rparr> [''groups'' \<mapsto> (PNone :: unit pyval)]
                (PStr (py_str ''a, b ,,c'')) = Inr ns1 \<and>
            SplitList_call (py_str '','') \<lparr>dest = ''groups''\<rparr> ns1 (PStr (py_str '' d ,'')) =
              Inr [''groups'' \<mapsto> PList [PStr (py_str ''a''), PStr (py_str ''b''),
                     PStr (py_str ''c''), PStr (py_str ''d'')]])"
proof -
  have seg1: "trimmed_nonempty_segments (py_str ''a, b ,,c'') (py_str '','') =
      [py_str ''a'', py_str ''b'', py_str ''c'']"
    by (simp add: trimmed_nonempty_segments_def py_str_def strip_def isspace_def)
  have seg2: "trimmed_nonempty_segments (py_str '' d ,'') (py_str '','') = [py_str ''d'']"
    by (simp add: trimmed_nonempty_segments_def py_str_def strip_def isspace_def)
  have sep: "py_str '','' \<noteq> []" by (simp add: py_str_def)
  have slot: "[''groups'' \<mapsto> (PNone :: unit pyval)] (dest \<lparr>dest = ''groups''\<rparr>) = Some PNone"
    by simp
  have unset: "\<not> truthy (PNone :: unit pyval) \<or> (\<exists>xs. (PNone :: unit pyval) = PList xs)"
    by simp
  show ?thesis
    using SplitList_appends [of "py_str '',''" "[''groups'' \<mapsto> (PNone :: unit pyval)]"
        "\<lparr>dest = ''groups''\<rparr>" PNone "py_str ''a, b ,,c''" "py_str '' d ,''",
        OF sep slot unset]
    by (auto simp: seg1 seg2 prior_sequence_def)
qed

text \<open>
  C2 as stated ranges over every separator. With the empty separator \<open>values.split\<close>
  raises \<open>ValueError\<close> and the destination is not set.
\<close>

theorem SplitList_empty_separator:
  "SplitList_call [] \<lparr>dest = ''groups''\<rparr> [''groups'' \<mapsto> (PNone :: unit pyval)]
     (PStr (py_str ''a'')) = Inl ValueError"
  by (simp add: SplitList_call_def split_def)

text \<open>
  C7. When the matched value is not text the split-accumulate action returns at once:
  the parse result is unchanged, its destination slot included, whatever the separator
  and whatever the slot holds.
\<close>

theorem SplitList_not_text:
  "\<not> is_str v \<Longrightarrow> SplitList_call separator a ns v = Inr ns"
  by (cases v) (simp_all add: SplitList_call_def)

theorem SplitList_not_text_witness:
  "\<not> is_str (PNone :: unit pyval) \<and>
   SplitList_call (py_str '','') \<lparr>dest = ''groups''\<rparr> [''groups'' \<mapsto> PNone] (PNone :: unit pyval) =
     Inr [''groups'' \<mapsto> PNone]"
  using SplitList_not_text [of "PNone :: unit pyval" "py_str '',''" "\<lparr>dest = ''groups''\<rparr>"
      "[''groups'' \<mapsto> PNone]"]
  by simp

section \<open>The environment default\<close>

text \<open>
  C3, amended. A variable that is missing or empty gives \<open>None\<close>, for every separator.
  For every non-empty separator a variable that is set gives \<open>None\<close> when its trimmed
  segments are all empty, and otherwise the non-empty sequence of its trimmed non-empty
  segments, in order. The helper never returns an empty sequence.
\<close>

theorem from_splitted_env_result:
  "(env var = None \<or> env var = Some [] \<longrightarrow> from_splitted_env env var separator = Inr None)
   \<and> (separator \<noteq> [] \<longrightarrow>
        (\<forall>v. env var = Some v \<longrightarrow>
           from_splitted_env env var separator =
             Inr (if trimmed_nonempty_segments v separator = [] then None
                  else Some (trimmed_nonempty_segments v separator))))
   \<and> from_splitted_env env var separator \<noteq> Inr (Some [])"
  by (auto simp: from_splitted_env_def split_def stripped_segments_eq Let_def
        trimmed_nonempty_segments_def strip_def split: option.splits)

theorem from_splitted_env_result_witness:
  "from_splitted_env Map.empty (py_str ''PDM_SKIP_HOOKS'') (py_str '','') = Inr None
   \<and> from_splitted_env [py_str ''PDM_SKIP_HOOKS'' \<mapsto> []] (py_str ''PDM_SKIP_HOOKS'') (py_str '','')
       = Inr None
   \<and> from_splitted_env [py_str ''PDM_SKIP_HOOKS'' \<mapsto> py_str '', ,''] (py_str ''PDM_SKIP_HOOKS'')
         (py_str '','') = Inr None
   \<and> from_splitted_env [py_str ''PDM_SKIP_HOOKS'' \<mapsto> py_str '' a,,b ''] (py_str ''PDM_SKIP_HOOKS'')
         (py_str '','') = Inr (Some [py_str ''a'', py_str ''b''])"
proof -
  have sep: "py_str '','' \<noteq> []" by (simp add: py_str_def)
  have seg1: "trimmed_nonempty_segments (py_str '', ,'') (py_str '','') = []"
    by (simp add: trimmed_nonempty_segments_def py_str_def strip_def isspace_def)
  have seg2: "trimmed_nonempty_segments (py_str '' a,,b '') (py_str '','') =
      [py_str ''a'', py_str ''b'']"
    by (simp add: trimmed_nonempty_segments_def py_str_def strip_def isspace_def)
  show ?thesis
    using from_splitted_env_result [of Map.empty "py_str ''PDM_SKIP_HOOKS''" "py_str '',''"]
      from_splitted_env_result [of "[py_str ''PDM_SKIP_HOOKS'' \<mapsto> []]"
        "py_str ''PDM_SKIP_HOOKS''" "py_str '',''"]
      from_splitted_env_result [of "[py_str ''PDM_SKIP_HOOKS'' \<mapsto> py_str '', ,'']"
        "py_str ''PDM_SKIP_HOOKS''" "py_str '',''"]
      from_splitted_env_result [of "[py_str ''PDM_SKIP_HOOKS'' \<mapsto> py_str '' a,,b '']"
        "py_str ''PDM_SKIP_HOOKS''" "py_str '',''"]
    by (simp add: sep seg1 seg2)
qed

text \<open>
  C3 as stated ranges over every separator. With the empty separator and a variable that
  is set and not empty, \<open>value.split\<close> raises \<open>ValueError\<close>: the helper returns
  neither \<open>None\<close> nor a sequence.
\<close>

theorem from_splitted_env_empty_separator:
  "from_splitted_env [py_str ''PDM_SKIP_HOOKS'' \<mapsto> py_str ''a''] (py_str ''PDM_SKIP_HOOKS'') []
     = Inl ValueError"
  by (simp add: from_splitted_env_def split_def py_str_def)

section \<open>The callback action\<close>

lemma CallbackAction_call_ok:
  assumes "callbacks_slot_ok ns"
  shows "CallbackAction_call a ns v s =
           Inr (ns(''callbacks'' \<mapsto> PList (callbacks_of ns @ [PPartial (callback a) v s])))"
  using assms
  by (auto simp: CallbackAction_call_def callbacks_slot_ok_def callbacks_of_def
        prior_sequence_def Let_def split: option.splits pyval.splits)

lemma CallbackAction_call_Inr:
  "CallbackAction_call a ns v s = Inr ns1 \<Longrightarrow> callbacks_slot_ok ns"
  by (auto simp: CallbackAction_call_def callbacks_slot_ok_def Let_def
        split: option.splits pyval.splits if_splits)

text \<open>
  C4. A match of a CallbackAction flag assigns no destination: every attribute of the
  parse result other than \<open>callbacks\<close> is unchanged, the action's own destination
  among them. Its only effect is to create the \<open>callbacks\<close> list if absent and to
  append one record binding the handler to the parsed value and the alias as matched.
  When \<open>callbacks\<close> holds something that is no list the action raises and changes
  nothing.
\<close>

theorem CallbackAction_frame:
  "(callbacks_slot_ok ns \<longrightarrow>
      CallbackAction_call a ns v s =
        Inr (ns(''callbacks'' \<mapsto> PList (callbacks_of ns @ [PPartial (callback a) v s]))))
   \<and> (\<not> callbacks_slot_ok ns \<longrightarrow> CallbackAction_call a ns v s = Inl AttributeError)
   \<and> (\<forall>ns1. CallbackAction_call a ns v s = Inr ns1 \<longrightarrow>
         (\<forall>k. k \<noteq> ''callbacks'' \<longrightarrow> ns1 k = ns k)
         \<and> (dest a \<noteq> ''callbacks'' \<longrightarrow> ns1 (dest a) = ns (dest a)))"
proof (intro conjI allI impI)
  assume "callbacks_slot_ok ns"
  then show "CallbackAction_call a ns v s =
        Inr (ns(''callbacks'' \<mapsto> PList (callbacks_of ns @ [PPartial (callback a) v s])))"
    by (rule CallbackAction_call_ok)
next
  assume "\<not> callbacks_slot_ok ns"
  then show "CallbackAction_call a ns v s = Inl AttributeError"
    by (auto simp: CallbackAction_call_def callbacks_slot_ok_def Let_def
        split: option.splits pyval.splits)
next
  fix ns1 k
  assume r: "CallbackAction_call a ns v s = Inr ns1"
  then have ok: "callbacks_slot_ok ns" by (rule CallbackAction_call_Inr)
  { assume "k \<noteq> ''callbacks''"
    with r show "ns1 k = ns k" by (auto simp: CallbackAction_call_ok [OF ok]) }
  { assume "dest a \<noteq> ''callbacks''"
    with r show "ns1 (dest a) = ns (dest a)" by (auto simp: CallbackAction_call_ok [OF ok]) }
qed

theorem CallbackAction_frame_witness:
  "callbacks_slot_ok [''dry_run'' \<mapsto> (PBool False :: handler pyval)]
   \<and> CallbackAction_call \<lparr>dest = ''frozen_lockfile'', callback = frozen_lockfile\<rparr>
        [''dry_run'' \<mapsto> PBool False] (PList []) (PStr (py_str ''--no-lock''))
      = Inr [''dry_run'' \<mapsto> PBool False,
             ''callbacks'' \<mapsto> PList [PPartial frozen_lockfile (PList []) (PStr (py_str ''--no-lock''))]]
   \<and> \<not> callbacks_slot_ok [''callbacks'' \<mapsto> (PNone :: handler pyval)]
   \<and> CallbackAction_call \<lparr>dest = ''callbacks'', callback = frozen_lockfile\<rparr>
        [''callbacks'' \<mapsto> PNone] (PList []) (PStr (py_str ''--callbacks'')) = Inl AttributeError"
proof -
  have ok: "callbacks_slot_ok [''dry_run'' \<mapsto> (PBool False :: handler pyval)]"
    by (simp add: callbacks_slot_ok_def)
  have none: "callbacks_of [''dry_run'' \<mapsto> (PBool False :: handler pyval)] = []"
    by (simp add: callbacks_of_def prior_sequence_def)
  have bad: "\<not> callbacks_slot_ok [''callbacks'' \<mapsto> (PNone :: handler pyval)]"
    by (simp add: callbacks_slot_ok_def)
  have "CallbackAction_call \<lparr>dest = ''frozen_lockfile'', callback = frozen_lockfile\<rparr>
        [''dry_run'' \<mapsto> PBool False] (PList []) (PStr (py_str ''--no-lock''))
      = Inr [''dry_run'' \<mapsto> PBool False,
             ''callbacks'' \<mapsto> PList [PPartial frozen_lockfile (PList []) (PStr (py_str ''--no-lock''))]]"
    using CallbackAction_frame [of "[''dry_run'' \<mapsto> PBool False]"
        "\<lparr>dest = ''frozen_lockfile'', callback = frozen_lockfile\<rparr>" "PList []"
        "PStr (py_str ''--no-lock'')"]
    by (auto simp: ok none)
  then show ?thesis
    using CallbackAction_frame [of "[''callbacks'' \<mapsto> PNone]"
        "\<lparr>dest = ''callbacks'', callback = frozen_lockfile\<rparr>" "PList []"
        "PStr (py_str ''--callbacks'')"]
    by (simp add: ok bad)
qed

lemma callbacks_slot_ok_upd: "callbacks_slot_ok (ns(''callbacks'' \<mapsto> PList cs))"
  by (simp add: callbacks_slot_ok_def)

lemma callbacks_of_upd: "callbacks_of (ns(''callbacks'' \<mapsto> PList cs)) = cs"
  by (simp add: callbacks_of_def prior_sequence_def)

lemma fire_all_ok:
  "callbacks_slot_ok ns \<Longrightarrow>
   fire_all ms ns =
     Inr (if ms = [] then ns
          else ns(''callbacks'' \<mapsto> PList (callbacks_of ns @ map deferred ms)))"
proof (induction ms arbitrary: ns)
  case Nil
  show ?case by simp
next
  case (Cons m ms)
  obtain a v s where m: "m = (a, v, s)" by (cases m)
  let ?ns1 = "ns(''callbacks'' \<mapsto> PList (callbacks_of ns @ [PPartial (callback a) v s]))"
  have "fire_all (m # ms) ns = fire_all ms ?ns1"
    using Cons.prems by (simp add: m CallbackAction_call_ok)
  also have "\<dots> = Inr (if ms = [] then ?ns1
          else ?ns1(''callbacks'' \<mapsto> PList (callbacks_of ?ns1 @ map deferred ms)))"
    by (rule Cons.IH) (rule callbacks_slot_ok_upd)
  also have "\<dots> = Inr (if m # ms = [] then ns
          else ns(''callbacks'' \<mapsto> PList (callbacks_of ns @ map deferred (m # ms))))"
    by (simp add: callbacks_of_upd deferred_def m)
  finally show ?case .
qed

text \<open>
  C1. For every sequence of matches of callback-bound flags in one parse, each firing
  appends exactly one record at the end of the \<open>callbacks\<close> list: after the walk the
  list is what it held before, followed by the deferred invocations in the order of the
  matches. The action reads its own handler, the value and the alias, nothing of the
  catalog, so the order of declaration has no part in the result.
\<close>

theorem callbacks_in_match_order:
  assumes "callbacks_slot_ok ns"
  shows "\<exists>ns1. fire_all ms ns = Inr ns1
           \<and> callbacks_of ns1 = callbacks_of ns @ map deferred ms
           \<and> length (callbacks_of ns1) = length (callbacks_of ns) + length ms
           \<and> (\<forall>k. k \<noteq> ''callbacks'' \<longrightarrow> ns1 k = ns k)"
  using fire_all_ok [OF assms, of ms]
  by (auto simp: callbacks_of_upd)

text \<open>
  \<open>--frozen-lockfile\<close> then \<open>-I\<close> on a fresh parse result, and the same two flags
  written the other way round: the list follows argv both times.
\<close>

theorem callbacks_in_match_order_witness:
  "callbacks_slot_ok [''dry_run'' \<mapsto> (PBool False :: handler pyval)]
   \<and> (\<exists>ns1. fire_all
          [(\<lparr>dest = ''frozen_lockfile'', callback = frozen_lockfile\<rparr>, PList [],
              PStr (py_str ''--frozen-lockfile'')),
           (\<lparr>dest = ''ignore_python'', callback = ignore_python\<rparr>, PList [],
              PStr (py_str ''-I''))]
          [''dry_run'' \<mapsto> PBool False] = Inr ns1
        \<and> callbacks_of ns1 =
            [PPartial frozen_lockfile (PList []) (PStr (py_str ''--frozen-lockfile'')),
             PPartial ignore_python (PList []) (PStr (py_str ''-I''))]
        \<and> ns1 ''dry_run'' = Some (PBool False))
   \<and> (\<exists>ns1. fire_all
          [(\<lparr>dest = ''ignore_python'', callback = ignore_python\<rparr>, PList [],
              PStr (py_str ''-I'')),
           (\<lparr>dest = ''frozen_lockfile'', callback = frozen_lockfile\<rparr>, PList [],
              PStr (py_str ''--frozen-lockfile''))]
          [''dry_run'' \<mapsto> PBool False] = Inr ns1
        \<and> callbacks_of ns1 =
            [PPartial ignore_python (PList []) (PStr (py_str ''-I'')),
             PPartial frozen_lockfile (PList []) (PStr (py_str ''--frozen-lockfile''))]
        \<and> ns1 ''dry_run'' = Some (PBool False))"
proof -
  have ok: "callbacks_slot_ok [''dry_run'' \<mapsto> (PBool False :: handler pyval)]"
    by (simp add: callbacks_slot_ok_def)
  have none: "callbacks_of [''dry_run'' \<mapsto> (PBool False :: handler pyval)] = []"
    by (simp add: callbacks_of_def prior_sequence_def)
  have one: "\<exists>ns1. fire_all
          [(\<lparr>dest = ''frozen_lockfile'', callback = frozen_lockfile\<rparr>, PList [],
              PStr (py_str ''--frozen-lockfile'')),
           (\<lparr>dest = ''ignore_python'', callback = ignore_python\<rparr>, PList [],
              PStr (py_str ''-I''))]
          [''dry_run'' \<mapsto> PBool False] = Inr ns1
        \<and> callbacks_of ns1 =
            [PPartial frozen_lockfile (PList []) (PStr (py_str ''--frozen-lockfile'')),
             PPartial ignore_python (PList []) (PStr (py_str ''-I''))]
        \<and> ns1 ''dry_run'' = Some (PBool False)"
    using callbacks_in_match_order [OF ok,
        of "[(\<lparr>dest = ''frozen_lockfile'', callback = frozen_lockfile\<rparr>, PList [],
              PStr (py_str ''--frozen-lockfile'')),
           (\<lparr>dest = ''ignore_python'', callback = ignore_python\<rparr>, PList [],
              PStr (py_str ''-I''))]"]
    by (auto simp: none deferred_def)
  have two: "\<exists>ns1. fire_all
          [(\<lparr>dest = ''ignore_python'', callback = ignore_python\<rparr>, PList [],
              PStr (py_str ''-I'')),
           (\<lparr>dest = ''frozen_lockfile'', callback = frozen_lockfile\<rparr>, PList [],
              PStr (py_str ''--frozen-lockfile''))]
          [''dry_run'' \<mapsto> PBool False] = Inr ns1
        \<and> callbacks_of ns1 =
            [PPartial ignore_python (PList []) (PStr (py_str ''-I'')),
             PPartial frozen_lockfile (PList []) (PStr (py_str ''--frozen-lockfile''))]
        \<and> ns1 ''dry_run'' = Some (PBool False)"
    using callbacks_in_match_order [OF ok,
        of "[(\<lparr>dest = ''ignore_python'', callback = ignore_python\<rparr>, PList [],
              PStr (py_str ''-I'')),
           (\<lparr>dest = ''frozen_lockfile'', callback = frozen_lockfile\<rparr>, PList [],
              PStr (py_str ''--frozen-lockfile''))]"]
    by (auto simp: none deferred_def)
  from ok one two show ?thesis by blast
qed

section \<open>Options in the store\<close>

text \<open>
  Reading the store after an update, and the decorator form on the two kinds of object:
  on an Option it rewrites the object in place, on a group it raises.
\<close>

lemma deref_update:
  "deref (h[r := x]) r1 = (if r1 = r \<and> r < length h then Some x else deref h r1)"
  by (simp add: deref_def)

lemma deref_append:
  "deref (h @ [x]) r1 = (if r1 = length h then Some x else deref h r1)"
  by (auto simp: deref_def nth_append)

lemma deref_Some_less: "deref h r = Some x \<Longrightarrow> r < length h"
  by (simp add: deref_def split: if_splits)

lemma Option_call_Option:
  assumes "deref h r = Some (OptionObj opt)"
  shows "Option_call h r f =
           Inr (h[r := OptionObj (opt\<lparr>kwargs :=
                  (kwargs opt)(''action'' \<mapsto> PClass CallbackAction_class,
                               ''callback'' \<mapsto> PFunc f)\<rparr>)], r)"
  using assms by (simp add: Option_call_def)

lemma Option_call_group:
  "deref h r = Some (GroupObj g) \<Longrightarrow> Option_call h r f = Inl AttributeError"
  by (simp add: Option_call_def)

text \<open>
  C5. Applying an Option as a decorator returns the reference it was called on: the same
  instance, with no object created. Afterwards its \<open>action\<close> parameter is the callback
  action class and its \<open>callback\<close> parameter the handler; its aliases, its other
  parameters and every other object are as before.
\<close>

theorem Option_call_same_instance:
  assumes "deref h r = Some (OptionObj opt)"
  shows "\<exists>h1. Option_call h r f = Inr (h1, r)
           \<and> length h1 = length h
           \<and> (\<forall>r1. r1 \<noteq> r \<longrightarrow> deref h1 r1 = deref h r1)
           \<and> parameter h1 r ''action'' = Some (PClass CallbackAction_class)
           \<and> parameter h1 r ''callback'' = Some (PFunc f)
           \<and> (\<forall>k. k \<noteq> ''action'' \<and> k \<noteq> ''callback'' \<longrightarrow> parameter h1 r k = parameter h r k)
           \<and> aliases h1 r = aliases h r"
  using assms deref_Some_less [OF assms]
  by (simp add: Option_call_Option parameter_def aliases_def deref_update)

theorem Option_call_same_instance_witness:
  "deref [OptionObj \<lparr>args = [PStr (py_str ''-I''), PStr (py_str ''--ignore-python'')],
                      kwargs = [''nargs'' \<mapsto> (PInt 0 :: handler pyval)]\<rparr>] 0
     = Some (OptionObj \<lparr>args = [PStr (py_str ''-I''), PStr (py_str ''--ignore-python'')],
                        kwargs = [''nargs'' \<mapsto> PInt 0]\<rparr>)
   \<and> (\<exists>h1. Option_call
          [OptionObj \<lparr>args = [PStr (py_str ''-I''), PStr (py_str ''--ignore-python'')],
                      kwargs = [''nargs'' \<mapsto> PInt 0]\<rparr>] 0 ignore_python = Inr (h1, 0)
        \<and> length h1 = 1
        \<and> parameter h1 0 ''action'' = Some (PClass CallbackAction_class)
        \<and> parameter h1 0 ''callback'' = Some (PFunc ignore_python)
        \<and> parameter h1 0 ''nargs'' = Some (PInt 0)
        \<and> aliases h1 0 = [PStr (py_str ''-I''), PStr (py_str ''--ignore-python'')])"
proof -
  let ?opt = "\<lparr>args = [PStr (py_str ''-I''), PStr (py_str ''--ignore-python'')],
                kwargs = [''nargs'' \<mapsto> PInt 0]\<rparr> :: handler Option"
  have d: "deref [OptionObj ?opt] 0 = Some (OptionObj ?opt)"
    by (simp add: deref_def)
  have p: "parameter [OptionObj ?opt] 0 ''nargs'' = Some (PInt 0)"
    "aliases [OptionObj ?opt] 0 = [PStr (py_str ''-I''), PStr (py_str ''--ignore-python'')]"
    by (simp_all add: parameter_def aliases_def deref_def)
  from Option_call_same_instance [OF d, of ignore_python]
  obtain h1 where "Option_call [OptionObj ?opt] 0 ignore_python = Inr (h1, 0)"
    "length h1 = length [OptionObj ?opt]"
    "parameter h1 0 ''action'' = Some (PClass CallbackAction_class)"
    "parameter h1 0 ''callback'' = Some (PFunc ignore_python)"
    "parameter h1 0 ''nargs'' = parameter [OptionObj ?opt] 0 ''nargs''"
    "aliases h1 0 = aliases [OptionObj ?opt] 0"
    by auto
  with d p show ?thesis by auto
qed

lemma add_argument_frame:
  assumes "add_argument h g as kw = Inr h1" and "r \<noteq> g" and "r < length h"
  shows "deref h1 r = deref h r"
  using assms
  by (auto simp: add_argument_def append_option_def Option_init_def deref_update deref_append
      split: option.splits obj.splits list.splits pyval.splits if_splits)

text \<open>
  An operation that is not the decorator form on the Option at \<open>r\<close> leaves that
  Option as it was, and so does any run of such operations.
\<close>

lemma apply_operation_frame:
  assumes "deref h r = Some (OptionObj opt)" and "\<not> decorates r op"
    and "apply_operation h op = Inr h1"
  shows "deref h1 r = deref h r"
proof -
  have less: "r < length h" using assms(1) by (rule deref_Some_less)
  show ?thesis
  proof (cases op)
    case (New_Option as kw)
    with assms(3) less show ?thesis by (auto simp: Option_init_def deref_append)
  next
    case (New_Group nm mutex req)
    with assms(3) less show ?thesis by (auto simp: ArgumentGroup_init_def deref_append)
  next
    case (Decorate self func)
    with assms(2,3) show ?thesis
      by (auto simp: Option_call_def deref_update split: option.splits obj.splits)
  next
    case (Add_argument self as kw)
    with assms(3) have a: "add_argument h self as kw = Inr h1" by simp
    with assms(1) have "r \<noteq> self" by (auto simp: add_argument_def)
    with a less show ?thesis by (simp add: add_argument_frame)
  next
    case (Append_child self c)
    with assms(1,3) show ?thesis
      by (auto simp: append_option_def deref_update split: option.splits obj.splits if_splits)
  next
    case (Add_to_parser depth self parser)
    with assms(3) show ?thesis by (auto split: sum.splits)
  next
    case (Add_to_group depth self grp)
    with assms(3) show ?thesis by (auto split: sum.splits)
  qed
qed

lemma run_operations_frame:
  assumes "deref h r = Some (OptionObj opt)" and "\<forall>op\<in>set ops. \<not> decorates r op"
    and "run_operations h ops = Inr h1"
  shows "deref h1 r = deref h r"
  using assms
proof (induction ops arbitrary: h)
  case Nil
  then show ?case by simp
next
  case (Cons op ops)
  from Cons.prems(3) obtain h2 where a: "apply_operation h op = Inr h2"
    and rest: "run_operations h2 ops = Inr h1"
    by (auto split: sum.splits)
  from Cons.prems(2) have "\<not> decorates r op" by simp
  with Cons.prems(1) have same: "deref h2 r = deref h r"
    using a by (rule apply_operation_frame)
  with Cons.prems(1) have "deref h2 r = Some (OptionObj opt)" by simp
  from Cons.IH [OF this _ rest] Cons.prems(2) have "deref h1 r = deref h2 r" by simp
  with same show ?case by simp
qed

text \<open>
  C9, amended. Each application of the decorator form forces the \<open>action\<close> parameter
  to the callback action and binds the handler it is given, replacing the binding of an
  earlier application; applying it again with the same handler changes nothing. After an
  Option has been wrapped, no run of operations other than a further application of the
  decorator form to it changes the Option: neither creating Options or groups, nor
  decorating another Option, nor \<open>add_argument\<close> or an append on any group, nor a
  registration; its \<open>action\<close> parameter stays the callback action and its handler
  the one bound.
\<close>

theorem Option_call_rebinds:
  assumes "deref h r = Some (OptionObj opt)"
  shows "(\<exists>h1 h2. Option_call h r f = Inr (h1, r) \<and> Option_call h1 r g = Inr (h2, r)
            \<and> parameter h1 r ''action'' = Some (PClass CallbackAction_class)
            \<and> parameter h1 r ''callback'' = Some (PFunc f)
            \<and> parameter h2 r ''action'' = Some (PClass CallbackAction_class)
            \<and> parameter h2 r ''callback'' = Some (PFunc g)
            \<and> (g = f \<longrightarrow> h2 = h1))
       \<and> (\<forall>h1 ops h3.
             Option_call h r f = Inr (h1, r) \<and> (\<forall>op\<in>set ops. \<not> decorates r op)
               \<and> run_operations h1 ops = Inr h3 \<longrightarrow>
             deref h3 r = deref h1 r
             \<and> parameter h3 r ''action'' = Some (PClass CallbackAction_class)
             \<and> parameter h3 r ''callback'' = Some (PFunc f))
       \<and> (\<forall>grp as kw h3. add_argument h grp as kw = Inr h3 \<longrightarrow> deref h3 r = deref h r)"
proof -
  have less: "r < length h" using assms by (rule deref_Some_less)
  let ?o1 = "opt\<lparr>kwargs := (kwargs opt)(''action'' \<mapsto> PClass CallbackAction_class,
                               ''callback'' \<mapsto> PFunc f)\<rparr>"
  let ?h1 = "h[r := OptionObj ?o1]"
  have 1: "Option_call h r f = Inr (?h1, r)" using assms by (rule Option_call_Option)
  have d1: "deref ?h1 r = Some (OptionObj ?o1)" using less by (simp add: deref_update)
  have p1: "parameter ?h1 r ''action'' = Some (PClass CallbackAction_class)"
    "parameter ?h1 r ''callback'' = Some (PFunc f)"
    by (simp_all add: parameter_def d1)
  let ?o2 = "?o1\<lparr>kwargs := (kwargs ?o1)(''action'' \<mapsto> PClass CallbackAction_class,
                               ''callback'' \<mapsto> PFunc g)\<rparr>"
  let ?h2 = "?h1[r := OptionObj ?o2]"
  have 2: "Option_call ?h1 r g = Inr (?h2, r)" using d1 by (rule Option_call_Option)
  have p2: "parameter ?h2 r ''action'' = Some (PClass CallbackAction_class)"
    "parameter ?h2 r ''callback'' = Some (PFunc g)"
    using less by (simp_all add: parameter_def deref_update)
  have same: "g = f \<longrightarrow> ?h2 = ?h1"
    by (simp add: fun_upd_twist)
  have first: "\<exists>h1 h2. Option_call h r f = Inr (h1, r) \<and> Option_call h1 r g = Inr (h2, r)
            \<and> parameter h1 r ''action'' = Some (PClass CallbackAction_class)
            \<and> parameter h1 r ''callback'' = Some (PFunc f)
            \<and> parameter h2 r ''action'' = Some (PClass CallbackAction_class)
            \<and> parameter h2 r ''callback'' = Some (PFunc g)
            \<and> (g = f \<longrightarrow> h2 = h1)"
    using 1 2 p1 p2 same by blast
  have second: "deref h3 r = deref h1 r
             \<and> parameter h3 r ''action'' = Some (PClass CallbackAction_class)
             \<and> parameter h3 r ''callback'' = Some (PFunc f)"
    if w: "Option_call h r f = Inr (h1, r)" and n: "\<forall>op\<in>set ops. \<not> decorates r op"
      and run: "run_operations h1 ops = Inr h3" for h1 ops h3
  proof -
    from w 1 have h1: "h1 = ?h1" by simp
    from run_operations_frame [OF d1 n run [unfolded h1]] have "deref h3 r = deref ?h1 r" .
    with p1 h1 show ?thesis by (simp add: parameter_def)
  qed
  have third: "deref h3 r = deref h r" if a: "add_argument h grp as kw = Inr h3" for grp as kw h3
  proof -
    have "r \<noteq> grp" using a assms by (auto simp: add_argument_def)
    then show ?thesis using a less by (simp add: add_argument_frame)
  qed
  from first second third show ?thesis by blast
qed

text \<open>
  \<open>-I\<close> wrapped with one handler and then with another: the second replaces the
  first. Wrapped once and taken through the example run, it keeps its handler while the
  Option created on the way gets its own.
\<close>

theorem Option_call_rebinds_witness:
  "deref example_options 0 =
     Some (OptionObj \<lparr>args = [PStr (py_str ''-I''), PStr (py_str ''--ignore-python'')],
                        kwargs = [''nargs'' \<mapsto> PInt 0]\<rparr>)
   \<and> (\<exists>h1 h2. Option_call example_options 0 frozen_lockfile = Inr (h1, 0)
         \<and> parameter h1 0 ''callback'' = Some (PFunc frozen_lockfile)
         \<and> Option_call h1 0 ignore_python = Inr (h2, 0)
         \<and> parameter h2 0 ''action'' = Some (PClass CallbackAction_class)
         \<and> parameter h2 0 ''callback'' = Some (PFunc ignore_python))
   \<and> list_all (\<lambda>op. \<not> decorates 0 op) example_operations
   \<and> (\<exists>h1 h3. Option_call example_options 0 frozen_lockfile = Inr (h1, 0)
         \<and> run_operations h1 example_operations = Inr h3
         \<and> length h3 = 5
         \<and> parameter h3 2 ''callback'' = Some (PFunc no_isolation)
         \<and> deref h3 0 = deref h1 0
         \<and> parameter h3 0 ''action'' = Some (PClass CallbackAction_class)
         \<and> parameter h3 0 ''callback'' = Some (PFunc frozen_lockfile))
   \<and> (\<exists>h3. add_argument example_options 1 [PRef 0] Map.empty = Inr h3
         \<and> deref h3 0 = deref example_options 0)"
proof -
  let ?opt = "\<lparr>args = [PStr (py_str ''-I''), PStr (py_str ''--ignore-python'')],
                kwargs = [''nargs'' \<mapsto> (PInt 0 :: handler pyval)]\<rparr>"
  have d: "deref example_options 0 = Some (OptionObj ?opt)"
    by (simp add: deref_def example_options_def)
  note t = Option_call_rebinds [OF d, of frozen_lockfile ignore_python]
  from t obtain h1 h2 where w: "Option_call example_options 0 frozen_lockfile = Inr (h1, 0)"
    "Option_call h1 0 ignore_python = Inr (h2, 0)"
    "parameter h1 0 ''callback'' = Some (PFunc frozen_lockfile)"
    "parameter h2 0 ''action'' = Some (PClass CallbackAction_class)"
    "parameter h2 0 ''callback'' = Some (PFunc ignore_python)"
    by blast
  have h1: "h1 = [OptionObj \<lparr>args = [PStr (py_str ''-I''), PStr (py_str ''--ignore-python'')],
                 kwargs = [''nargs'' \<mapsto> PInt 0, ''action'' \<mapsto> PClass CallbackAction_class,
                           ''callback'' \<mapsto> PFunc frozen_lockfile]\<rparr>,
      GroupObj \<lparr>name = py_str ''Install options'', options = [], required = False,
                is_mutually_exclusive = False\<rparr>]"
    using w(1) by (simp add: Option_call_def deref_def example_options_def)
  have n: "list_all (\<lambda>op. \<not> decorates 0 op) example_operations"
    by (simp add: example_operations_def)
  then have n': "\<forall>op\<in>set example_operations. \<not> decorates 0 op"
    by (simp add: list_all_iff)
  have "\<exists>h3. run_operations h1 example_operations = Inr h3 \<and> length h3 = 5
          \<and> parameter h3 2 ''callback'' = Some (PFunc no_isolation)"
    unfolding h1
    by (simp add: example_operations_def Option_init_def ArgumentGroup_init_def Option_call_def
          add_argument_def append_option_def deref_def add_to_parser.simps add_to_group.simps
          parameter_def)
  then obtain h3 where run: "run_operations h1 example_operations = Inr h3"
    and h3: "length h3 = 5" "parameter h3 2 ''callback'' = Some (PFunc no_isolation)"
    by blast
  from t w(1) n' run have kept: "deref h3 0 = deref h1 0"
    "parameter h3 0 ''action'' = Some (PClass CallbackAction_class)"
    "parameter h3 0 ''callback'' = Some (PFunc frozen_lockfile)"
    by blast+
  have "\<exists>h3. add_argument example_options 1 [PRef 0] Map.empty = Inr h3"
    by (simp add: add_argument_def deref_def example_options_def)
  then obtain h4 where a: "add_argument example_options 1 [PRef 0] Map.empty = Inr h4" by blast
  with t have "deref h4 0 = deref example_options 0" by blast
  with a d w n run h3 kept show ?thesis by blast
qed

text \<open>
  C9 as stated lets the decorator form act at most once per instance. Nothing guards
  \<open>Option.__call__\<close>: a second application with another handler rebinds the handler.
\<close>

theorem Option_call_twice:
  "Option_call [OptionObj \<lparr>args = [PStr (py_str ''-I'')], kwargs = Map.empty\<rparr>] 0 frozen_lockfile
     = Inr ([OptionObj \<lparr>args = [PStr (py_str ''-I'')],
                        kwargs = [''action'' \<mapsto> PClass CallbackAction_class,
                                  ''callback'' \<mapsto> PFunc frozen_lockfile]\<rparr>], 0)
   \<and> Option_call [OptionObj \<lparr>args = [PStr (py_str ''-I'')],
                        kwargs = [''action'' \<mapsto> PClass CallbackAction_class,
                                  ''callback'' \<mapsto> PFunc frozen_lockfile]\<rparr>] 0 ignore_python
     = Inr ([OptionObj \<lparr>args = [PStr (py_str ''-I'')],
                        kwargs = [''action'' \<mapsto> PClass CallbackAction_class,
                                  ''callback'' \<mapsto> PFunc ignore_python]\<rparr>], 0)
   \<and> parameter [OptionObj \<lparr>args = [PStr (py_str ''-I'')],
                        kwargs = [''action'' \<mapsto> PClass CallbackAction_class,
                                  ''callback'' \<mapsto> PFunc frozen_lockfile]\<rparr>] 0 ''callback''
       \<noteq> parameter [OptionObj \<lparr>args = [PStr (py_str ''-I'')],
                        kwargs = [''action'' \<mapsto> PClass CallbackAction_class,
                                  ''callback'' \<mapsto> PFunc ignore_python]\<rparr>] 0 ''callback''"
  by (simp add: Option_call_def deref_def parameter_def fun_upd_twist)

section \<open>Adding to a group\<close>

text \<open>
  The example store is what the module's own steps build: the two groups are created,
  the three flags are added from raw arguments, and \<open>dev\<close> is appended to the
  children of the outer group as \<open>groups_group.options.append(dev_group)\<close> does.
\<close>

lemma example_store_built:
  "(case ArgumentGroup_init [] (py_str ''Dependencies Selection'') False False of
      (h0, groups_group) \<Rightarrow>
    case add_argument h0 groups_group [PStr (py_str ''--no-default'')]
           [''dest'' \<mapsto> PStr (py_str ''default''),
            ''action'' \<mapsto> PStr (py_str ''store_false''),
            ''default'' \<mapsto> PBool True] of
      Inl e \<Rightarrow> Inl e
    | Inr h1 \<Rightarrow>
    case ArgumentGroup_init h1 (py_str ''dev'') True False of
      (h2, dev_group) \<Rightarrow>
    case add_argument h2 dev_group [PStr (py_str ''-d''), PStr (py_str ''--dev'')]
           [''default'' \<mapsto> PNone, ''dest'' \<mapsto> PStr (py_str ''dev''),
            ''action'' \<mapsto> PStr (py_str ''store_true'')] of
      Inl e \<Rightarrow> Inl e
    | Inr h3 \<Rightarrow>
    case add_argument h3 dev_group [PStr (py_str ''--prod''), PStr (py_str ''--production'')]
           [''dest'' \<mapsto> PStr (py_str ''dev''),
            ''action'' \<mapsto> PStr (py_str ''store_false'')] of
      Inl e \<Rightarrow> Inl e
    | Inr h4 \<Rightarrow>
    case deref h4 groups_group of
      Some (GroupObj g) \<Rightarrow> Inr (append_option h4 groups_group g dev_group)
    | _ \<Rightarrow> Inl Dangling)
   = Inr example_store"
  by (simp add: ArgumentGroup_init_def add_argument_def Option_init_def append_option_def
        deref_def example_store_def)

text \<open>
  C10. When the first positional argument of \<open>add_argument\<close> is a prebuilt Option,
  the reference itself is appended to the children of the group; the other positional
  arguments and the keyword arguments do not reach the result, no object is created,
  no other object changes, and no exception is raised.
\<close>

theorem add_argument_prebuilt:
  assumes "deref h g = Some (GroupObj grp)" and "r < length h"
  shows "add_argument h g (PRef r # rest) kw =
           Inr (h[g := GroupObj (grp\<lparr>options := options grp @ [r]\<rparr>)])
         \<and> (\<forall>r1. r1 \<noteq> g \<longrightarrow>
               deref (h[g := GroupObj (grp\<lparr>options := options grp @ [r]\<rparr>)]) r1 = deref h r1)
         \<and> length (h[g := GroupObj (grp\<lparr>options := options grp @ [r]\<rparr>)]) = length h"
  using assms
  by (simp add: add_argument_def append_option_def deref_update)

theorem add_argument_prebuilt_witness:
  "deref [OptionObj \<lparr>args = [PStr (py_str ''--no-isolation'')],
                      kwargs = [''nargs'' \<mapsto> (PInt 0 :: handler pyval)]\<rparr>,
          GroupObj \<lparr>name = py_str ''Install options'', options = [], required = False,
                    is_mutually_exclusive = False\<rparr>] 1
     = Some (GroupObj \<lparr>name = py_str ''Install options'', options = [], required = False,
                    is_mutually_exclusive = False\<rparr>)
   \<and> add_argument [OptionObj \<lparr>args = [PStr (py_str ''--no-isolation'')],
                      kwargs = [''nargs'' \<mapsto> (PInt 0 :: handler pyval)]\<rparr>,
          GroupObj \<lparr>name = py_str ''Install options'', options = [], required = False,
                    is_mutually_exclusive = False\<rparr>] 1
         [PRef 0, PStr (py_str ''--ignored'')] [''action'' \<mapsto> PStr (py_str ''store_true'')]
       = Inr [OptionObj \<lparr>args = [PStr (py_str ''--no-isolation'')],
                      kwargs = [''nargs'' \<mapsto> PInt 0]\<rparr>,
          GroupObj \<lparr>name = py_str ''Install options'', options = [0], required = False,
                    is_mutually_exclusive = False\<rparr>]"
proof -
  let ?h = "[OptionObj \<lparr>args = [PStr (py_str ''--no-isolation'')],
                      kwargs = [''nargs'' \<mapsto> (PInt 0 :: handler pyval)]\<rparr>,
          GroupObj \<lparr>name = py_str ''Install options'', options = [], required = False,
                    is_mutually_exclusive = False\<rparr>]"
  have d: "deref ?h 1 = Some (GroupObj \<lparr>name = py_str ''Install options'', options = [],
             required = False, is_mutually_exclusive = False\<rparr>)"
    by (simp add: deref_def)
  have l: "0 < length ?h" by simp
  show ?thesis
    using add_argument_prebuilt [OF d l, of "[PStr (py_str ''--ignored'')]"
        "[''action'' \<mapsto> PStr (py_str ''store_true'')]"] d
    by simp
qed

section \<open>Registering a group\<close>

lemma add_to_group_eq: "add_to_group depth h r c = add_to_parser depth h r c"
  by (simp add: add_to_group.simps add_to_parser.simps split: option.splits obj.splits)

lemma add_to_parser_group:
  assumes "deref h r = Some (GroupObj g)"
  shows "add_to_parser (Suc d) h r c =
           (case register d h (options g) [] of
              Inl e \<Rightarrow> Inl e
            | Inr kids \<Rightarrow>
                Inr (c @ [if is_mutually_exclusive g then MutuallyExclusiveGroup (required g) kids
                          else ArgumentGroupScope (name g) kids]))"
  using assms by (simp add: add_to_parser.simps)

lemma add_to_parser_one:
  assumes "add_to_parser depth h r c = Inr c1"
  shows "\<exists>e. c1 = c @ [e] \<and> add_to_parser depth h r [] = Inr [e]"
  using assms
  by (cases depth)
     (auto simp: add_to_parser.simps split: option.splits obj.splits sum.splits)

lemma add_to_parser_any:
  assumes "add_to_parser depth h r [] = Inr [e]"
  shows "add_to_parser depth h r c = Inr (c @ [e])"
  using assms
  by (cases depth)
     (auto simp: add_to_parser.simps split: option.splits obj.splits sum.splits)

lemma register_kids:
  "register d h cs c = Inr c1 \<Longrightarrow>
     \<exists>kids. c1 = c @ kids \<and> length kids = length cs \<and>
       (\<forall>i<length cs. add_to_group d h (cs ! i) [] = Inr [kids ! i])"
proof (induction cs arbitrary: c)
  case Nil
  then show ?case by simp
next
  case (Cons x cs)
  from Cons.prems obtain c2 where x: "add_to_group d h x c = Inr c2"
    and rest: "register d h cs c2 = Inr c1"
    by (auto split: sum.splits)
  from x have "add_to_parser d h x c = Inr c2" by (simp add: add_to_group_eq)
  then obtain e where "c2 = c @ [e]" "add_to_parser d h x [] = Inr [e]"
    using add_to_parser_one by blast
  then have e: "c2 = c @ [e]" "add_to_group d h x [] = Inr [e]"
    by (simp_all add: add_to_group_eq)
  from Cons.IH [OF rest] obtain kids where k: "c1 = c2 @ kids" "length kids = length cs"
    "\<forall>i<length cs. add_to_group d h (cs ! i) [] = Inr [kids ! i]"
    by blast
  have "\<forall>i<length (x # cs). add_to_group d h ((x # cs) ! i) [] = Inr [(e # kids) ! i]"
    using e(2) k(3) by (auto simp: nth_Cons split: nat.splits)
  with e(1) k(1,2) show ?case
    by (intro exI [of _ "e # kids"]) simp
qed

lemma register_returns:
  assumes "\<And>x c. x \<in> set cs \<Longrightarrow> \<exists>c1. add_to_parser d h x c = Inr c1"
  shows "\<exists>c1. register d h cs c = Inr c1"
  using assms
proof (induction cs arbitrary: c)
  case Nil
  show ?case by simp
next
  case (Cons x cs)
  from Cons.prems [of x c] obtain c2 where "add_to_parser d h x c = Inr c2" by auto
  moreover from Cons.IH [of c2] Cons.prems obtain c1 where "register d h cs c2 = Inr c1"
    by auto
  ultimately show ?case by (simp add: add_to_group_eq)
qed

lemma add_to_parser_returns:
  "nested_within d h r \<Longrightarrow> \<exists>c1. add_to_parser d h r c = Inr c1"
proof (induction d arbitrary: r c)
  case 0
  then show ?case
    by (auto simp: nested_within.simps add_to_parser.simps split: option.splits obj.splits)
next
  case (Suc d)
  show ?case
  proof (cases "deref h r")
    case None
    with Suc.prems show ?thesis by (simp add: nested_within.simps)
  next
    case (Some x)
    show ?thesis
    proof (cases x)
      case (OptionObj opt)
      with Some show ?thesis by (simp add: add_to_parser.simps)
    next
      case (GroupObj g)
      with Some Suc.prems have "list_all (nested_within d h) (options g)"
        by (simp add: nested_within.simps)
      then have "\<And>x c. x \<in> set (options g) \<Longrightarrow> \<exists>c1. add_to_parser d h x c = Inr c1"
        using Suc.IH by (simp add: list_all_iff)
      then obtain kids where "register d h (options g) [] = Inr kids"
        using register_returns by blast
      with Some GroupObj show ?thesis by (simp add: add_to_parser_group)
    qed
  qed
qed

text \<open>
  C6. For a group, \<open>add_to_group\<close> is \<open>add_to_parser\<close>. When \<open>add_to_parser\<close>
  returns, it has appended one scope to the container: a mutually exclusive scope carrying
  the group's \<open>required\<close> flag exactly when the group is marked mutually exclusive, and
  otherwise a display scope titled with the group's name. The scope holds one entry per
  child, in insertion order, each the entry that registering this child alone produces,
  so a nested group contributes its own scope. It returns whenever the nesting of groups
  fits the depth the interpreter allows.
\<close>

theorem ArgumentGroup_registration:
  assumes "deref h r = Some (GroupObj g)"
  shows "add_to_group depth h r parser = add_to_parser depth h r parser
    \<and> (\<forall>parser1. add_to_parser (Suc d) h r parser = Inr parser1 \<longrightarrow>
         (\<exists>kids. parser1 = parser @
               [if is_mutually_exclusive g then MutuallyExclusiveGroup (required g) kids
                else ArgumentGroupScope (name g) kids]
            \<and> length kids = length (options g)
            \<and> (\<forall>i<length (options g). add_to_group d h (options g ! i) [] = Inr [kids ! i])))
    \<and> (nested_within (Suc d) h r \<longrightarrow> (\<exists>parser1. add_to_parser (Suc d) h r parser = Inr parser1))"
proof (intro conjI allI impI)
  show "add_to_group depth h r parser = add_to_parser depth h r parser"
    by (rule add_to_group_eq)
next
  fix parser1
  assume "add_to_parser (Suc d) h r parser = Inr parser1"
  then obtain kids where k: "register d h (options g) [] = Inr kids"
    and p: "parser1 = parser @
               [if is_mutually_exclusive g then MutuallyExclusiveGroup (required g) kids
                else ArgumentGroupScope (name g) kids]"
    by (auto simp: add_to_parser_group [OF assms] split: sum.splits)
  from register_kids [OF k] have "length kids = length (options g)"
    "\<forall>i<length (options g). add_to_group d h (options g ! i) [] = Inr [kids ! i]"
    by auto
  with p show "\<exists>kids. parser1 = parser @
               [if is_mutually_exclusive g then MutuallyExclusiveGroup (required g) kids
                else ArgumentGroupScope (name g) kids]
            \<and> length kids = length (options g)
            \<and> (\<forall>i<length (options g). add_to_group d h (options g ! i) [] = Inr [kids ! i])"
    by blast
next
  assume "nested_within (Suc d) h r"
  then show "\<exists>parser1. add_to_parser (Suc d) h r parser = Inr parser1"
    by (rule add_to_parser_returns)
qed

theorem ArgumentGroup_registration_witness:
  "deref example_store 0 =
     Some (GroupObj \<lparr>name = py_str ''Dependencies Selection'', options = [1, 2],
             required = False, is_mutually_exclusive = False\<rparr>)
   \<and> nested_within (Suc (Suc 0)) example_store 0
   \<and> add_to_parser (Suc (Suc 0)) example_store 0 [] =
       Inr [ArgumentGroupScope (py_str ''Dependencies Selection'')
             [Argument [PStr (py_str ''--no-default'')]
                [''dest'' \<mapsto> PStr (py_str ''default''),
                 ''action'' \<mapsto> PStr (py_str ''store_false''),
                 ''default'' \<mapsto> PBool True],
              MutuallyExclusiveGroup False
                [Argument [PStr (py_str ''-d''), PStr (py_str ''--dev'')]
                   [''default'' \<mapsto> PNone, ''dest'' \<mapsto> PStr (py_str ''dev''),
                    ''action'' \<mapsto> PStr (py_str ''store_true'')],
                 Argument [PStr (py_str ''--prod''), PStr (py_str ''--production'')]
                   [''dest'' \<mapsto> PStr (py_str ''dev''),
                    ''action'' \<mapsto> PStr (py_str ''store_false'')]]]]
   \<and> add_to_group (Suc (Suc 0)) example_store 0 [] =
       add_to_parser (Suc (Suc 0)) example_store 0 []"
proof -
  have d: "deref example_store 0 =
     Some (GroupObj \<lparr>name = py_str ''Dependencies Selection'', options = [1, 2],
             required = False, is_mutually_exclusive = False\<rparr>)"
    by (simp add: deref_def example_store_def)
  have leaves:
    "deref example_store (Suc 0) = Some (OptionObj \<lparr>args = [PStr (py_str ''--no-default'')],
                 kwargs = [''dest'' \<mapsto> PStr (py_str ''default''),
                           ''action'' \<mapsto> PStr (py_str ''store_false''),
                           ''default'' \<mapsto> PBool True]\<rparr>)"
    "deref example_store 2 = Some (GroupObj \<lparr>name = py_str ''dev'', options = [3, 4],
                 required = False, is_mutually_exclusive = True\<rparr>)"
    "deref example_store 3 = Some (OptionObj
               \<lparr>args = [PStr (py_str ''-d''), PStr (py_str ''--dev'')],
                 kwargs = [''default'' \<mapsto> PNone, ''dest'' \<mapsto> PStr (py_str ''dev''),
                           ''action'' \<mapsto> PStr (py_str ''store_true'')]\<rparr>)"
    "deref example_store 4 = Some (OptionObj
               \<lparr>args = [PStr (py_str ''--prod''), PStr (py_str ''--production'')],
                 kwargs = [''dest'' \<mapsto> PStr (py_str ''dev''),
                           ''action'' \<mapsto> PStr (py_str ''store_false'')]\<rparr>)"
    by (simp_all add: deref_def example_store_def)
  have kids: "register (Suc 0) example_store [1, 2] [] =
      Inr [Argument [PStr (py_str ''--no-default'')]
                [''dest'' \<mapsto> PStr (py_str ''default''),
                 ''action'' \<mapsto> PStr (py_str ''store_false''),
                 ''default'' \<mapsto> PBool True],
              MutuallyExclusiveGroup False
                [Argument [PStr (py_str ''-d''), PStr (py_str ''--dev'')]
                   [''default'' \<mapsto> PNone, ''dest'' \<mapsto> PStr (py_str ''dev''),
                    ''action'' \<mapsto> PStr (py_str ''store_true'')],
                 Argument [PStr (py_str ''--prod''), PStr (py_str ''--production'')]
                   [''dest'' \<mapsto> PStr (py_str ''dev''),
                    ''action'' \<mapsto> PStr (py_str ''store_false'')]]]"
    by (simp add: add_to_parser.simps add_to_group.simps leaves)
  have n: "nested_within (Suc (Suc 0)) example_store 0"
    by (simp add: nested_within.simps d leaves)
  have p: "add_to_parser (Suc (Suc 0)) example_store 0 [] =
       Inr [ArgumentGroupScope (py_str ''Dependencies Selection'')
             [Argument [PStr (py_str ''--no-default'')]
                [''dest'' \<mapsto> PStr (py_str ''default''),
                 ''action'' \<mapsto> PStr (py_str ''store_false''),
                 ''default'' \<mapsto> PBool True],
              MutuallyExclusiveGroup False
                [Argument [PStr (py_str ''-d''), PStr (py_str ''--dev'')]
                   [''default'' \<mapsto> PNone, ''dest'' \<mapsto> PStr (py_str ''dev''),
                    ''action'' \<mapsto> PStr (py_str ''store_true'')],
                 Argument [PStr (py_str ''--prod''), PStr (py_str ''--production'')]
                   [''dest'' \<mapsto> PStr (py_str ''dev''),
                    ''action'' \<mapsto> PStr (py_str ''store_false'')]]]]"
    using kids by (simp add: add_to_parser_group [OF d])
  show ?thesis
    using ArgumentGroup_registration [OF d, of "Suc (Suc 0)" "[]" "Suc 0"] d n p
    by simp
qed

section \<open>The pep582 handler\<close>

lemma run_callbacks_append:
  "run_callbacks call project ns (xs @ ys) =
     (case run_callbacks call project ns xs of
        Inl e \<Rightarrow> Inl e
      | Inr project1 \<Rightarrow> run_callbacks call project1 ns ys)"
  by (induction call project ns xs rule: run_callbacks.induct) (auto split: sum.splits)

lemma pep582_option_raises: "pep582_option emit project ns v s \<noteq> Inr project1"
  by (simp add: pep582_option_def split: sum.splits)

lemma run_callbacks_raises:
  assumes "\<And>p q. call f p ns v s \<noteq> Inr q"
  shows "run_callbacks call project ns (before @ PPartial f v s # later) \<noteq> Inr project1"
proof (induction before arbitrary: project)
  case Nil
  from assms [of project] show ?case
    by (cases "call f project ns v s") auto
next
  case (Cons x before)
  then show ?case
    by (cases x) (auto split: sum.splits)
qed

lemma run_callbacks_cut:
  assumes "\<And>p q. call f p ns v s \<noteq> Inr q"
  shows "run_callbacks call project ns (before @ PPartial f v s # later) =
           run_callbacks call project ns (before @ [PPartial f v s])"
proof (induction before arbitrary: project)
  case Nil
  from assms [of project] show ?case
    by (cases "call f project ns v s") auto
next
  case (Cons x before)
  then show ?case
    by (cases x) (auto split: sum.splits)
qed

text \<open>
  C8. The pep582 handler never returns normally: it calls \<open>print_pep582_command\<close>
  first and, when that returns, raises \<open>SystemExit(0)\<close> in the state the printing
  left. In the driver, the deferred invocations recorded after it are never executed: the
  run is the run of the list cut after the pep582 record, and it ends in an exception.
\<close>

theorem pep582_terminates:
  "(\<forall>project1. pep582_option emit project ns v s \<noteq> Inr project1)
   \<and> (\<forall>project1. emit project v = Inr project1 \<longrightarrow>
         pep582_option emit project ns v s = Inl (SystemExit 0, project1))
   \<and> (call f = pep582_option emit \<longrightarrow>
         run_callbacks call project ns (before @ PPartial f v s # later) =
           run_callbacks call project ns (before @ [PPartial f v s])
         \<and> (\<forall>project1. run_callbacks call project ns (before @ PPartial f v s # later)
               \<noteq> Inr project1))"
proof (intro conjI allI impI)
  fix project1
  show "pep582_option emit project ns v s \<noteq> Inr project1"
    by (rule pep582_option_raises)
  { assume "emit project v = Inr project1"
    then show "pep582_option emit project ns v s = Inl (SystemExit 0, project1)"
      by (simp add: pep582_option_def) }
  assume c: "call f = pep582_option emit"
  have ne: "call f p ns v s \<noteq> Inr q" for p q by (simp add: c pep582_option_raises)
  show "run_callbacks call project ns (before @ PPartial f v s # later) \<noteq> Inr project1"
    using ne by (rule run_callbacks_raises)
next
  assume c: "call f = pep582_option emit"
  have ne: "call f p ns v s \<noteq> Inr q" for p q by (simp add: c pep582_option_raises)
  show "run_callbacks call project ns (before @ PPartial f v s # later) =
           run_callbacks call project ns (before @ [PPartial f v s])"
    using ne by (rule run_callbacks_cut)
qed

theorem pep582_terminates_witness:
  "example_print example_world (PStr (py_str ''AUTO'')) =
     Inr (example_world\<lparr>printed := [py_str ''eval command'']\<rparr>)
   \<and> pep582_option example_print example_world Map.empty (PStr (py_str ''AUTO''))
         (PStr (py_str ''--pep582'')) =
       Inl (SystemExit 0, example_world\<lparr>printed := [py_str ''eval command'']\<rparr>)
   \<and> call_handler example_print pep582 = pep582_option example_print
   \<and> run_callbacks (call_handler example_print) example_world Map.empty
         [PPartial frozen_lockfile (PList []) (PStr (py_str ''--frozen-lockfile'')),
          PPartial pep582 (PStr (py_str ''AUTO'')) (PStr (py_str ''--pep582'')),
          PPartial ignore_python (PList []) (PStr (py_str ''-I''))] =
       Inl (SystemExit 0,
            \<lparr>enable_write_lockfile = False, warnings = [], os_environ = Map.empty,
              printed = [py_str ''eval command'']\<rparr>)"
proof -
  have e: "example_print example_world (PStr (py_str ''AUTO'')) =
     Inr (example_world\<lparr>printed := [py_str ''eval command'']\<rparr>)"
    by (simp add: example_print_def example_world_def)
  have c: "call_handler example_print pep582 = pep582_option example_print"
    by simp
  have two: "run_callbacks (call_handler example_print) example_world Map.empty
         ([PPartial frozen_lockfile (PList []) (PStr (py_str ''--frozen-lockfile''))] @
          [PPartial pep582 (PStr (py_str ''AUTO'')) (PStr (py_str ''--pep582''))]) =
       Inl (SystemExit 0,
            \<lparr>enable_write_lockfile = False, warnings = [], os_environ = Map.empty,
              printed = [py_str ''eval command'']\<rparr>)"
    by (simp add: frozen_lockfile_option_def pep582_option_def example_print_def
          example_world_def py_str_def)
  note t = pep582_terminates [of example_print example_world Map.empty "PStr (py_str ''AUTO'')"
      "PStr (py_str ''--pep582'')" "call_handler example_print" pep582
      "[PPartial frozen_lockfile (PList []) (PStr (py_str ''--frozen-lockfile''))]"
      "[PPartial ignore_python (PList []) (PStr (py_str ''-I''))]"]
  from t e have "pep582_option example_print example_world Map.empty (PStr (py_str ''AUTO''))
         (PStr (py_str ''--pep582'')) =
       Inl (SystemExit 0, example_world\<lparr>printed := [py_str ''eval command'']\<rparr>)"
    by blast
  moreover from t c have "run_callbacks (call_handler example_print) example_world Map.empty
         ([PPartial frozen_lockfile (PList []) (PStr (py_str ''--frozen-lockfile''))] @
          PPartial pep582 (PStr (py_str ''AUTO'')) (PStr (py_str ''--pep582'')) #
          [PPartial ignore_python (PList []) (PStr (py_str ''-I''))]) =
       run_callbacks (call_handler example_print) example_world Map.empty
         ([PPartial frozen_lockfile (PList []) (PStr (py_str ''--frozen-lockfile''))] @
          [PPartial pep582 (PStr (py_str ''AUTO'')) (PStr (py_str ''--pep582''))])"
    by blast
  ultimately show ?thesis using e c two by simp
qed

end
